theory Spec2Isabelle
  imports Complex_Main
begin

section \<open>The personality engine of character-engine\<close>

text \<open>
  A shallow embedding of \<^verbatim>\<open>src/lib/personality-engine.ts\<close> (class PersonalityEngine),
  \<^verbatim>\<open>src/lib/mbti-converter.ts\<close> (class MBTIConverter), \<^verbatim>\<open>src/lib/hexaco-calculator.ts\<close>
  (class HEXACOCalculator) and of the classes CrossSystemValidator and DarkTriadCalculator.

  A TypeScript \<^verbatim>\<open>number\<close> is modelled as a \<^typ>\<open>real\<close>: arithmetic is exact and there
  is no rounding. A constant such as \<^verbatim>\<open>0.6\<close> is the rational 6/10. Where the engine reads
  values that need not be numbers (the properties of an object received at run time, and
  everything \<^verbatim>\<open>Object.values\<close> returns), they are values of the type \<open>jsval\<close> below, with
  JavaScript's conversions and NaN.
  A static method of a class is a function; where two classes have a method of the same
  name, the one outside PersonalityEngine carries its class name as a prefix.
\<close>

subsection \<open>JavaScript values and operators\<close>

text \<open>
  The values a property can hold here: a number, NaN, \<^verbatim>\<open>null\<close>, a boolean, \<^verbatim>\<open>undefined\<close>
  (also what reading an absent property gives), and \<open>Text\<close>. \<open>Text\<close> stands for any value
  whose conversion to a primitive is a string with a character that no numeric literal
  has: a string such as \<^verbatim>\<open>'Explorer'\<close>, or an array of such strings. Concatenating
  anything to such a string gives such a string again, and its conversion to a number is
  NaN, so the operators below do not need its characters.
  Left out: strings that read as numbers (\<^verbatim>\<open>''\<close>, \<^verbatim>\<open>'50'\<close>), the empty array, objects and
  Infinity; \<^verbatim>\<open>+\<close> on them needs the conversion of a number to its decimal string.
\<close>

datatype jsval = Num real | NaN | Null | Bool bool | Text | Undefined

text \<open>The conversion ToNumber; \<open>None\<close> is NaN.\<close>

fun ToNumber :: "jsval \<Rightarrow> real option" where
  "ToNumber (Num r) = Some r"
| "ToNumber NaN = None"
| "ToNumber Null = Some 0"
| "ToNumber (Bool b) = Some (if b then 1 else 0)"
| "ToNumber Text = None"
| "ToNumber Undefined = None"

text \<open>An operator that converts both operands to numbers; NaN if either is NaN.\<close>

definition numeric :: "(real \<Rightarrow> real \<Rightarrow> real) \<Rightarrow> jsval \<Rightarrow> jsval \<Rightarrow> jsval" where
  "numeric f a b =
     (case ToNumber a of
        None \<Rightarrow> NaN
      | Some x \<Rightarrow> (case ToNumber b of None \<Rightarrow> NaN | Some y \<Rightarrow> Num (f x y)))"

text \<open>\<^verbatim>\<open>a + b\<close>: concatenation when an operand is a string, addition of numbers otherwise.\<close>

definition js_add :: "jsval \<Rightarrow> jsval \<Rightarrow> jsval" where
  "js_add a b = (if a = Text \<or> b = Text then Text else numeric (\<lambda>x y. x + y) a b)"

definition js_sub :: "jsval \<Rightarrow> jsval \<Rightarrow> jsval" where
  "js_sub a b = numeric (\<lambda>x y. x - y) a b"

text \<open>
  \<^verbatim>\<open>a / n\<close> for a length \<open>n\<close>, the only division on such values. A length of 0 comes with
  an empty sum, and 0 / 0 is NaN.
\<close>

definition js_div :: "jsval \<Rightarrow> nat \<Rightarrow> jsval" where
  "js_div a n =
     (case ToNumber a of
        None \<Rightarrow> NaN
      | Some x \<Rightarrow> (if n = 0 then NaN else Num (x / real n)))"

text \<open>
  \<^verbatim>\<open>Math.pow(a, n)\<close> for a literal exponent \<open>n\<close> (the exponent 0 gives 1 for every base,
  NaN included) and \<^verbatim>\<open>Math.max(a, b)\<close>.
\<close>

definition Math_pow :: "jsval \<Rightarrow> nat \<Rightarrow> jsval" where
  "Math_pow a n =
     (if n = 0 then Num 1
      else (case ToNumber a of None \<Rightarrow> NaN | Some x \<Rightarrow> Num (x ^ n)))"

definition Math_max :: "jsval \<Rightarrow> jsval \<Rightarrow> jsval" where
  "Math_max a b = numeric max a b"

text \<open>
  The comparisons of a value with a number: the value is converted to a number, and every
  comparison with NaN is false.
\<close>

definition js_lt :: "jsval \<Rightarrow> real \<Rightarrow> bool" where
  "js_lt v x = (case ToNumber v of None \<Rightarrow> False | Some n \<Rightarrow> n < x)"

definition js_gt :: "jsval \<Rightarrow> real \<Rightarrow> bool" where
  "js_gt v x = (case ToNumber v of None \<Rightarrow> False | Some n \<Rightarrow> n > x)"

definition js_ge :: "jsval \<Rightarrow> real \<Rightarrow> bool" where
  "js_ge v x = (case ToNumber v of None \<Rightarrow> False | Some n \<Rightarrow> n \<ge> x)"

definition js_le :: "jsval \<Rightarrow> real \<Rightarrow> bool" where
  "js_le v x = (case ToNumber v of None \<Rightarrow> False | Some n \<Rightarrow> n \<le> x)"

subsection \<open>Data model (src/types/personality.ts)\<close>

text \<open>
  Field names are those of the interfaces. Isabelle needs the fields of different records
  to have different names, so a field name that several interfaces share carries the
  system as a suffix outside BigFiveTraits (\<^verbatim>\<open>confidence\<close> of MBTIProfile is
  \<open>confidence_mbti\<close>, \<^verbatim>\<open>extraversion\<close> of HEXACOProfile is \<open>extraversion_hexaco\<close>).

  TypeScript's typing is structural: an object with the five numbers and more properties,
  such as a BigFiveProfile (which extends BigFiveTraits by \<^verbatim>\<open>archetype\<close>, \<^verbatim>\<open>description\<close>,
  \<^verbatim>\<open>strengths\<close>, \<^verbatim>\<open>challenges\<close> and \<^verbatim>\<open>confidence\<close>), is a BigFiveTraits too. The field
  \<open>others\<close> holds the values of the object's other own properties; an object with the five
  properties alone has \<open>others = []\<close>.
\<close>

record BigFiveTraits =
  openness :: real
  conscientiousness :: real
  extraversion :: real
  agreeableness :: real
  neuroticism :: real
  others :: "jsval list"

record MBTIDimensionScore =
  preference :: char
  strength :: real

record MBTIDimensions =
  EI :: MBTIDimensionScore
  SN :: MBTIDimensionScore
  TF :: MBTIDimensionScore
  JP :: MBTIDimensionScore

text \<open>The optional fields of MBTIProfile are never set by the converters and are left out.\<close>

record MBTIProfile =
  type :: string
  dimensions :: MBTIDimensions
  confidence_mbti :: real

text \<open>The sixteen members of the union type MBTIType.\<close>

definition MBTITypes :: "string list" where
  "MBTITypes =
     [''INTJ'', ''INTP'', ''ENTJ'', ''ENTP'',
      ''INFJ'', ''INFP'', ''ENFJ'', ''ENFP'',
      ''ISTJ'', ''ISFJ'', ''ESTJ'', ''ESFJ'',
      ''ISTP'', ''ISFP'', ''ESTP'', ''ESFP'']"

record HEXACOProfile =
  honestyHumility :: real
  emotionality :: real
  extraversion_hexaco :: real
  agreeableness_hexaco :: real
  conscientiousness_hexaco :: real
  openness_hexaco :: real
  confidence_hexaco :: real

datatype RiskLevel = LOW | MODERATE | HIGH | EXTREME

record DarkTriadProfile =
  machiavellianism :: real
  narcissism :: real
  psychopathy :: real
  overallDarkness :: real
  riskLevel :: RiskLevel
  confidence_dark :: real

record TCITemperament =
  noveltySeekingCuriosity :: real
  impulsiveness :: real
  extravagance :: real
  disorderliness :: real
  harmAvoidance :: real
  rewardDependence :: real
  persistence :: real

record TCICharacter =
  selfDirectedness :: real
  cooperativeness :: real
  selfTranscendence :: real

text \<open>
  The confidence of a TCIProfile is computed from everything \<^verbatim>\<open>Object.values\<close> returns,
  so it is a \<open>jsval\<close>: a number or NaN.
\<close>

record TCIProfile =
  temperament :: TCITemperament
  character :: TCICharacter
  confidence_tci :: jsval

text \<open>
  \<^verbatim>\<open>Object.values(bigFive)\<close>: the values of all own properties of the object: the five
  traits, here in the order of the interface, and then the other properties.
\<close>

definition Object_values :: "BigFiveTraits \<Rightarrow> jsval list" where
  "Object_values bigFive =
     [Num (openness bigFive), Num (conscientiousness bigFive), Num (extraversion bigFive),
      Num (agreeableness bigFive), Num (neuroticism bigFive)] @ others bigFive"

text \<open>The range the interface documents for every trait: 0 to 100.\<close>

definition inRange :: "real \<Rightarrow> bool" where
  "inRange v = (0 \<le> v \<and> v \<le> 100)"

definition validTraits :: "BigFiveTraits \<Rightarrow> bool" where
  "validTraits t =
     (inRange (openness t) \<and> inRange (conscientiousness t) \<and> inRange (extraversion t) \<and>
      inRange (agreeableness t) \<and> inRange (neuroticism t))"

subsection \<open>MBTI (PersonalityEngine, lines 58-95)\<close>

definition calculateMBTIConfidence :: "BigFiveTraits \<Rightarrow> real" where
  "calculateMBTIConfidence bigFive =
     (let traitClarities =
            [\<bar>extraversion bigFive - 50\<bar>,
             \<bar>openness bigFive - 50\<bar>,
             \<bar>agreeableness bigFive - 50\<bar>,
             \<bar>conscientiousness bigFive - 50\<bar>];
          averageClarity = foldl (\<lambda>sum clarity. sum + clarity) 0 traitClarities / 4
      in min 100 ((averageClarity * 2) + 20))"

definition convertBigFiveToMBTI :: "BigFiveTraits \<Rightarrow> MBTIProfile" where
  "convertBigFiveToMBTI bigFive =
     (let extraversionScore = extraversion bigFive;
          EI = (if extraversionScore > 50 then CHR ''E'' else CHR ''I'');
          opennessScore = openness bigFive;
          SN = (if opennessScore > 50 then CHR ''N'' else CHR ''S'');
          agreeablenessScore = agreeableness bigFive;
          TF = (if agreeablenessScore > 50 then CHR ''F'' else CHR ''T'');
          conscientiousnessScore = conscientiousness bigFive;
          JP = (if conscientiousnessScore > 50 then CHR ''J'' else CHR ''P'')
      in \<lparr>type = [EI, SN, TF, JP],
          dimensions =
            \<lparr>EI = \<lparr>preference = EI, strength = \<bar>extraversionScore - 50\<bar> * 2\<rparr>,
             SN = \<lparr>preference = SN, strength = \<bar>opennessScore - 50\<bar> * 2\<rparr>,
             TF = \<lparr>preference = TF, strength = \<bar>agreeablenessScore - 50\<bar> * 2\<rparr>,
             JP = \<lparr>preference = JP, strength = \<bar>conscientiousnessScore - 50\<bar> * 2\<rparr>\<rparr>,
          confidence_mbti = calculateMBTIConfidence bigFive\<rparr>)"

subsection \<open>MBTI (MBTIConverter, src/lib/mbti-converter.ts)\<close>

definition getConversionConfidence :: "BigFiveTraits \<Rightarrow> real" where
  "getConversionConfidence bigFive =
     (let traitClarities =
            [\<bar>extraversion bigFive - 50\<bar>,
             \<bar>openness bigFive - 50\<bar>,
             \<bar>agreeableness bigFive - 50\<bar>,
             \<bar>conscientiousness bigFive - 50\<bar>];
          averageClarity = foldl (\<lambda>sum clarity. sum + clarity) 0 traitClarities / 4
      in min 100 ((averageClarity * 2) + 20))"

definition MBTIConverter_convertBigFiveToMBTI :: "BigFiveTraits \<Rightarrow> MBTIProfile" where
  "MBTIConverter_convertBigFiveToMBTI bigFive =
     (let EI = (if extraversion bigFive > 50 then CHR ''E'' else CHR ''I'');
          SN = (if openness bigFive > 50 then CHR ''N'' else CHR ''S'');
          TF = (if agreeableness bigFive > 50 then CHR ''F'' else CHR ''T'');
          JP = (if conscientiousness bigFive > 50 then CHR ''J'' else CHR ''P'')
      in \<lparr>type = [EI, SN, TF, JP],
          dimensions =
            \<lparr>EI = \<lparr>preference = EI, strength = \<bar>extraversion bigFive - 50\<bar> * 2\<rparr>,
             SN = \<lparr>preference = SN, strength = \<bar>openness bigFive - 50\<bar> * 2\<rparr>,
             TF = \<lparr>preference = TF, strength = \<bar>agreeableness bigFive - 50\<bar> * 2\<rparr>,
             JP = \<lparr>preference = JP, strength = \<bar>conscientiousness bigFive - 50\<bar> * 2\<rparr>\<rparr>,
          confidence_mbti = getConversionConfidence bigFive\<rparr>)"

subsection \<open>MBTI consistency (CrossSystemValidator, lines 213-222)\<close>

text \<open>\<^verbatim>\<open>s[i]\<close>: the character at index \<open>i\<close>, \<^verbatim>\<open>undefined\<close> (\<open>None\<close>) beyond the end.\<close>

definition charAt :: "string \<Rightarrow> nat \<Rightarrow> char option" where
  "charAt s i = (if i < length s then Some (s ! i) else None)"

text \<open>The loop \<^verbatim>\<open>for (let i = 0; i < 4; i++)\<close>, from index \<open>i\<close> with the count so far.\<close>

function matchLoop :: "string \<Rightarrow> string \<Rightarrow> nat \<Rightarrow> nat \<Rightarrow> nat" where
  "matchLoop actual derived i matchCount =
     (if i < 4
      then matchLoop actual derived (i + 1)
             (if charAt actual i = charAt derived i then matchCount + 1 else matchCount)
      else matchCount)"
  by pat_completeness auto
termination
  by (relation "measure (\<lambda>(actual, derived, i, matchCount). 4 - i)") auto

definition calculateMBTIConsistency :: "BigFiveTraits \<Rightarrow> MBTIProfile \<Rightarrow> real" where
  "calculateMBTIConsistency bigFive mbti =
     (let derivedMBTI = MBTIConverter_convertBigFiveToMBTI bigFive;
          actual = type mbti;
          derived = type derivedMBTI;
          matchCount = matchLoop actual derived 0 0
      in (real matchCount / 4) * 100)"

subsection \<open>HEXACO (PersonalityEngine, lines 105-152)\<close>

definition calculateHonestyHumility :: "BigFiveTraits \<Rightarrow> real" where
  "calculateHonestyHumility bigFive =
     (let stability = 100 - neuroticism bigFive;
          honestyBase = (stability + agreeableness bigFive + conscientiousness bigFive) / 3
      in if agreeableness bigFive < 20 then max 0 (honestyBase - 30)
         else min 100 honestyBase)"

definition calculateEmotionality :: "BigFiveTraits \<Rightarrow> real" where
  "calculateEmotionality bigFive =
     (let baseEmotionality = neuroticism bigFive;
          agreeablenessBoost = agreeableness bigFive * 0.2
      in min 100 (baseEmotionality + agreeablenessBoost))"

definition adjustHEXACOAgreeableness :: "BigFiveTraits \<Rightarrow> real" where
  "adjustHEXACOAgreeableness bigFive = max 0 (agreeableness bigFive - 10)"

definition calculateHEXACOConfidence :: "BigFiveTraits \<Rightarrow> real" where
  "calculateHEXACOConfidence bigFive =
     (let extremeScores =
            filter (\<lambda>score. js_lt score 20 \<or> js_gt score 80) (Object_values bigFive)
      in min 100 (70 + (real (length extremeScores) * 5)))"

definition convertBigFiveToHEXACO :: "BigFiveTraits \<Rightarrow> HEXACOProfile" where
  "convertBigFiveToHEXACO bigFive =
     \<lparr>honestyHumility = calculateHonestyHumility bigFive,
      emotionality = calculateEmotionality bigFive,
      extraversion_hexaco = extraversion bigFive,
      agreeableness_hexaco = adjustHEXACOAgreeableness bigFive,
      conscientiousness_hexaco = conscientiousness bigFive,
      openness_hexaco = openness bigFive,
      confidence_hexaco = calculateHEXACOConfidence bigFive\<rparr>"

subsection \<open>Honesty-Humility (HEXACOCalculator, src/lib/hexaco-calculator.ts, lines 23-31)\<close>

definition HEXACOCalculator_calculateHonestyHumility :: "BigFiveTraits \<Rightarrow> real" where
  "HEXACOCalculator_calculateHonestyHumility bigFive =
     (let stability = 100 - neuroticism bigFive;
          honestyBase = (stability + agreeableness bigFive + conscientiousness bigFive) / 3
      in if agreeableness bigFive < 20 then max 0 (honestyBase - 30)
         else min 100 honestyBase)"

subsection \<open>Dark Triad from Big Five (PersonalityEngine, lines 162-217)\<close>

definition calculateMachiavellianism :: "BigFiveTraits \<Rightarrow> real" where
  "calculateMachiavellianism bigFive =
     (let lowAgreeableness = 100 - agreeableness bigFive;
          lowNeuroticism = 100 - neuroticism bigFive;
          strategicThinking = openness bigFive * 0.3;
          machScore = (lowAgreeableness * 0.6 + lowNeuroticism * 0.3 + strategicThinking * 0.1)
      in min 100 machScore)"

definition calculateNarcissism :: "BigFiveTraits \<Rightarrow> real" where
  "calculateNarcissism bigFive =
     (let highExtraversion = extraversion bigFive;
          lowAgreeableness = (100 - agreeableness bigFive) * 0.7;
          lowNeuroticism = (100 - neuroticism bigFive) * 0.5;
          narcScore = (highExtraversion * 0.5 + lowAgreeableness * 0.3 + lowNeuroticism * 0.2)
      in min 100 narcScore)"

definition calculatePsychopathy :: "BigFiveTraits \<Rightarrow> real" where
  "calculatePsychopathy bigFive =
     (let veryLowAgreeableness = (100 - agreeableness bigFive) * 0.8;
          lowNeuroticism = (100 - neuroticism bigFive) * 0.4;
          lowConscientiousness = (100 - conscientiousness bigFive) * 0.3;
          psychScore = (veryLowAgreeableness * 0.6 + lowNeuroticism * 0.25
                        + lowConscientiousness * 0.15)
      in min 100 psychScore)"

definition calculateDarkTriadConfidence :: "BigFiveTraits \<Rightarrow> real" where
  "calculateDarkTriadConfidence bigFive =
     (let antiSocialIndicators =
            [if agreeableness bigFive < 30 then 20 else 0,
             if neuroticism bigFive < 30 then 15 else 0,
             if conscientiousness bigFive < 30 then 10 else 0];
          baseConfidence = 50;
          bonusConfidence = foldl (\<lambda>sum bonus. sum + bonus) 0 antiSocialIndicators
      in min 100 (baseConfidence + bonusConfidence))"

definition convertBigFiveToDarkTriad :: "BigFiveTraits \<Rightarrow> DarkTriadProfile" where
  "convertBigFiveToDarkTriad bigFive =
     \<lparr>machiavellianism = calculateMachiavellianism bigFive,
      narcissism = calculateNarcissism bigFive,
      psychopathy = calculatePsychopathy bigFive,
      overallDarkness = 0,
      riskLevel = LOW,
      confidence_dark = calculateDarkTriadConfidence bigFive\<rparr>"

subsection \<open>Dark Triad from HEXACO (DarkTriadCalculator)\<close>

definition DarkTriadCalculator_calculateMachiavellianism :: "HEXACOProfile \<Rightarrow> real" where
  "DarkTriadCalculator_calculateMachiavellianism hexaco =
     max 0 (100 - (honestyHumility hexaco * 0.8 + agreeableness_hexaco hexaco * 0.2))"

definition DarkTriadCalculator_calculateNarcissism :: "HEXACOProfile \<Rightarrow> real" where
  "DarkTriadCalculator_calculateNarcissism hexaco =
     max 0 ((100 - honestyHumility hexaco) * 0.7 + extraversion_hexaco hexaco * 0.3)"

definition DarkTriadCalculator_calculatePsychopathy :: "HEXACOProfile \<Rightarrow> real" where
  "DarkTriadCalculator_calculatePsychopathy hexaco =
     max 0 (100 - (honestyHumility hexaco * 0.6 + emotionality hexaco * 0.4))"

definition calculateFromHEXACO :: "HEXACOProfile \<Rightarrow> DarkTriadProfile" where
  "calculateFromHEXACO hexaco =
     \<lparr>machiavellianism = DarkTriadCalculator_calculateMachiavellianism hexaco,
      narcissism = DarkTriadCalculator_calculateNarcissism hexaco,
      psychopathy = DarkTriadCalculator_calculatePsychopathy hexaco,
      overallDarkness = 0,
      riskLevel = LOW,
      confidence_dark = 80\<rparr>"

subsection \<open>TCI (PersonalityEngine, lines 227-321)\<close>

definition calculateNoveltySeekingCuriosity :: "BigFiveTraits \<Rightarrow> real" where
  "calculateNoveltySeekingCuriosity bigFive =
     (openness bigFive * 0.7 + extraversion bigFive * 0.3)"

definition calculateImpulsiveness :: "BigFiveTraits \<Rightarrow> real" where
  "calculateImpulsiveness bigFive =
     (100 - conscientiousness bigFive) * 0.8 + neuroticism bigFive * 0.2"

definition calculateExtravagance :: "BigFiveTraits \<Rightarrow> real" where
  "calculateExtravagance bigFive =
     extraversion bigFive * 0.6 + (100 - conscientiousness bigFive) * 0.4"

definition calculateDisorderliness :: "BigFiveTraits \<Rightarrow> real" where
  "calculateDisorderliness bigFive = (100 - conscientiousness bigFive)"

definition calculateHarmAvoidance :: "BigFiveTraits \<Rightarrow> real" where
  "calculateHarmAvoidance bigFive =
     neuroticism bigFive * 0.7 + (100 - extraversion bigFive) * 0.3"

definition calculateRewardDependence :: "BigFiveTraits \<Rightarrow> real" where
  "calculateRewardDependence bigFive =
     extraversion bigFive * 0.5 + agreeableness bigFive * 0.5"

definition calculatePersistence :: "BigFiveTraits \<Rightarrow> real" where
  "calculatePersistence bigFive =
     conscientiousness bigFive * 0.8 + (100 - neuroticism bigFive) * 0.2"

definition calculateSelfDirectedness :: "BigFiveTraits \<Rightarrow> real" where
  "calculateSelfDirectedness bigFive =
     conscientiousness bigFive * 0.6 + (100 - neuroticism bigFive) * 0.4"

definition calculateCooperativeness :: "BigFiveTraits \<Rightarrow> real" where
  "calculateCooperativeness bigFive =
     agreeableness bigFive * 0.8 + (100 - neuroticism bigFive) * 0.2"

definition calculateSelfTranscendence :: "BigFiveTraits \<Rightarrow> real" where
  "calculateSelfTranscendence bigFive =
     openness bigFive * 0.6 + agreeableness bigFive * 0.4"

text \<open>
  \<^verbatim>\<open>calculateVariance\<close> is declared on \<^verbatim>\<open>number[]\<close>, but its only caller passes
  \<^verbatim>\<open>Object.values(bigFive) as number[]\<close>, a cast that converts nothing: the elements are
  whatever the object holds.
\<close>

definition calculateVariance :: "jsval list \<Rightarrow> jsval" where
  "calculateVariance values =
     (let mean = js_div (foldl (\<lambda>sum val. js_add sum val) (Num 0) values) (length values);
          squaredDiffs = map (\<lambda>val. Math_pow (js_sub val mean) 2) values
      in js_div (foldl (\<lambda>sum diff. js_add sum diff) (Num 0) squaredDiffs) (length values))"

definition calculateTCIConfidence :: "BigFiveTraits \<Rightarrow> jsval" where
  "calculateTCIConfidence bigFive =
     (let traits = Object_values bigFive;
          variance = calculateVariance traits
      in Math_max (Num 60) (js_sub (Num 100) variance))"

definition convertBigFiveToTCI :: "BigFiveTraits \<Rightarrow> TCIProfile" where
  "convertBigFiveToTCI bigFive =
     \<lparr>temperament =
        \<lparr>noveltySeekingCuriosity = calculateNoveltySeekingCuriosity bigFive,
         impulsiveness = calculateImpulsiveness bigFive,
         extravagance = calculateExtravagance bigFive,
         disorderliness = calculateDisorderliness bigFive,
         harmAvoidance = calculateHarmAvoidance bigFive,
         rewardDependence = calculateRewardDependence bigFive,
         persistence = calculatePersistence bigFive\<rparr>,
      character =
        \<lparr>selfDirectedness = calculateSelfDirectedness bigFive,
         cooperativeness = calculateCooperativeness bigFive,
         selfTranscendence = calculateSelfTranscendence bigFive\<rparr>,
      confidence_tci = calculateTCIConfidence bigFive\<rparr>"

subsection \<open>Validation and orchestration (PersonalityEngine, lines 41-48 and 332-349)\<close>

text \<open>
  The API routes pass parsed JSON to \<^verbatim>\<open>validateBigFive\<close> and \<^verbatim>\<open>generateAllSystems\<close>
  under a cast to BigFiveTraits, so at run time a trait need not be a number. A
  \<open>BigFiveObject\<close> is such an object: each of the five properties holds a \<open>jsval\<close>
  (\<open>Undefined\<close> when the property is absent), and \<open>others_prop\<close> holds the values of its
  other properties.
\<close>

record BigFiveObject =
  openness_prop :: jsval
  conscientiousness_prop :: jsval
  extraversion_prop :: jsval
  agreeableness_prop :: jsval
  neuroticism_prop :: jsval
  others_prop :: "jsval list"

text \<open>
  \<^verbatim>\<open>traits[trait]\<close>: the property of that name (only the five names of \<open>requiredTraits\<close>
  are ever looked up).
\<close>

definition getProp :: "BigFiveObject \<Rightarrow> string \<Rightarrow> jsval" where
  "getProp traits trait =
     (if trait = ''openness'' then openness_prop traits
      else if trait = ''conscientiousness'' then conscientiousness_prop traits
      else if trait = ''extraversion'' then extraversion_prop traits
      else if trait = ''agreeableness'' then agreeableness_prop traits
      else if trait = ''neuroticism'' then neuroticism_prop traits
      else Undefined)"

definition requiredTraits :: "string list" where
  "requiredTraits =
     [''openness'', ''conscientiousness'', ''extraversion'', ''agreeableness'', ''neuroticism'']"

text \<open>
  The two comparisons convert the property to a number and test nothing else: there is no
  \<^verbatim>\<open>typeof\<close> test, so \<^verbatim>\<open>null\<close> (read as 0) and the booleans (read as 0 and 1) pass.
\<close>

definition validateBigFive :: "BigFiveObject \<Rightarrow> bool" where
  "validateBigFive traits =
     list_all (\<lambda>trait. js_ge (getProp traits trait) 0 \<and> js_le (getProp traits trait) 100)
       requiredTraits"

text \<open>
  \<open>asObject\<close> is a BigFiveTraits as the object it is at run time. \<open>asTraits\<close> is the object
  as the converters read it: every operator they apply to a trait (\<^verbatim>\<open>-\<close>, \<^verbatim>\<open>*\<close>, \<^verbatim>\<open>/\<close>,
  \<^verbatim>\<open>>\<close>, \<^verbatim>\<open><\<close>, \<^verbatim>\<open>Math.abs\<close>, and \<^verbatim>\<open>+\<close> on values that are not strings) converts it to a
  number first. The orchestrator reads a trait only after validation, when that number
  exists. For a validated trait that is \<^verbatim>\<open>null\<close> or a boolean, the record holds this number
  also where the code copies the property unconverted (the result's \<^verbatim>\<open>bigFive\<close> and the
  HEXACO fields extraversion, conscientiousness and openness).
\<close>

definition asTraits :: "BigFiveObject \<Rightarrow> BigFiveTraits" where
  "asTraits obj =
     \<lparr>openness = the (ToNumber (openness_prop obj)),
      conscientiousness = the (ToNumber (conscientiousness_prop obj)),
      extraversion = the (ToNumber (extraversion_prop obj)),
      agreeableness = the (ToNumber (agreeableness_prop obj)),
      neuroticism = the (ToNumber (neuroticism_prop obj)),
      others = others_prop obj\<rparr>"

definition asObject :: "BigFiveTraits \<Rightarrow> BigFiveObject" where
  "asObject t =
     \<lparr>openness_prop = Num (openness t),
      conscientiousness_prop = Num (conscientiousness t),
      extraversion_prop = Num (extraversion t),
      agreeableness_prop = Num (agreeableness t),
      neuroticism_prop = Num (neuroticism t),
      others_prop = others t\<rparr>"

text \<open>\<^verbatim>\<open>throw new Error(msg)\<close> is the result \<open>Inl (Error msg)\<close>.\<close>

datatype error = Error string

record AllSystems =
  bigFive :: BigFiveTraits
  mbti :: MBTIProfile
  hexaco :: HEXACOProfile
  darkTriad :: DarkTriadProfile
  tci :: TCIProfile

definition generateAllSystems :: "BigFiveObject \<Rightarrow> error + AllSystems" where
  "generateAllSystems obj =
     (if \<not> validateBigFive obj then Inl (Error ''Invalid Big Five traits provided'')
      else
        (let bigFive = asTraits obj
         in Inr \<lparr>bigFive = bigFive,
                 mbti = convertBigFiveToMBTI bigFive,
                 hexaco = convertBigFiveToHEXACO bigFive,
                 darkTriad = convertBigFiveToDarkTriad bigFive,
                 tci = convertBigFiveToTCI bigFive\<rparr>))"

subsection \<open>Consistency of the systems (PersonalityEngine, lines 355-388)\<close>

record ConsistencyResult =
  isConsistent :: bool
  consistencyScore :: real
  warnings :: "string list"

text \<open>\<^verbatim>\<open>s.includes(c)\<close> for a search string of one character.\<close>

definition String_includes :: "string \<Rightarrow> char \<Rightarrow> bool" where
  "String_includes s c = (c \<in> set s)"

definition warningA :: string where
  "warningA = ''MBTI extraversion doesn'' @ [CHR 0x27] @ ''t match Big Five extraversion''"

definition warningB :: string where
  "warningB = ''High honesty-humility conflicts with elevated dark triad scores''"

definition warningC :: string where
  "warningC = ''High self-directedness conflicts with high impulsiveness''"

text \<open>
  The two mutable locals \<^verbatim>\<open>warnings\<close> and \<^verbatim>\<open>consistencyScore\<close> are passed along as a
  pair; each \<^verbatim>\<open>if\<close> of the source returns the pair, updated or not.
\<close>

definition validateSystemConsistency :: "AllSystems \<Rightarrow> ConsistencyResult" where
  "validateSystemConsistency systems =
     (let warnings = [];
          consistencyScore = 100;
          mbtiExtraversion = String_includes (type (mbti systems)) (CHR ''E'');
          bigFiveExtraversion = (extraversion (bigFive systems) > 50);
          (warnings, consistencyScore) =
            (if mbtiExtraversion \<noteq> bigFiveExtraversion
             then (warnings @ [warningA], consistencyScore - 10)
             else (warnings, consistencyScore));
          hexacoHonesty = honestyHumility (hexaco systems);
          darkTriadScore =
            (machiavellianism (darkTriad systems) + narcissism (darkTriad systems)
             + psychopathy (darkTriad systems)) / 3;
          (warnings, consistencyScore) =
            (if hexacoHonesty > 70 \<and> darkTriadScore > 50
             then (warnings @ [warningB], consistencyScore - 15)
             else (warnings, consistencyScore));
          tciSelfDirectedness = selfDirectedness (character (tci systems));
          tciImpulsiveness = impulsiveness (temperament (tci systems));
          (warnings, consistencyScore) =
            (if tciSelfDirectedness > 70 \<and> tciImpulsiveness > 70
             then (warnings @ [warningC], consistencyScore - 10)
             else (warnings, consistencyScore))
      in \<lparr>isConsistent = (length warnings = 0),
          consistencyScore = max 0 consistencyScore,
          warnings = warnings\<rparr>)"

text \<open>The neutral profile: every trait at 50.\<close>

definition neutral :: BigFiveTraits where
  "neutral = \<lparr>openness = 50, conscientiousness = 50, extraversion = 50,
              agreeableness = 50, neuroticism = 50, others = []\<rparr>"

text \<open>
  Scenario 3 of the specification: agreeableness, neuroticism and conscientiousness at 10
  (the specification leaves the other two traits open; they are 50 here).
\<close>

definition scenario3 :: BigFiveTraits where
  "scenario3 = \<lparr>openness = 50, conscientiousness = 10, extraversion = 50,
                agreeableness = 10, neuroticism = 10, others = []\<rparr>"

text \<open>
  Scenario 4 of the specification: Big Five extraversion 90 (the other traits are 50 here)
  paired with a supplied MBTI profile whose type begins with \<open>I\<close>; the other three profiles
  are the ones the engine derives.
\<close>

definition scenario4 :: AllSystems where
  "scenario4 =
     (let t = \<lparr>openness = 50, conscientiousness = 50, extraversion = 90,
               agreeableness = 50, neuroticism = 50, others = []\<rparr>
      in \<lparr>bigFive = t,
          mbti = \<lparr>type = ''ISTJ'', dimensions = dimensions (convertBigFiveToMBTI t),
                  confidence_mbti = 40\<rparr>,
          hexaco = convertBigFiveToHEXACO t,
          darkTriad = convertBigFiveToDarkTriad t,
          tci = convertBigFiveToTCI t\<rparr>)"

text \<open>
  A BigFiveProfile, which is a BigFiveTraits by its declaration: the five traits at 50 and
  \<^verbatim>\<open>archetype: 'Explorer'\<close>, \<^verbatim>\<open>description: 'Curious and open'\<close>,
  \<^verbatim>\<open>strengths: ['Creative']\<close>, \<^verbatim>\<open>challenges: ['Restless']\<close>, \<^verbatim>\<open>confidence: 95\<close>.
\<close>

definition explorerProfile :: BigFiveTraits where
  "explorerProfile =
     \<lparr>openness = 50, conscientiousness = 50, extraversion = 50,
      agreeableness = 50, neuroticism = 50, others = [Text, Text, Text, Text, Num 95]\<rparr>"

text \<open>
  A parsed JSON body whose \<^verbatim>\<open>openness\<close> is \<^verbatim>\<open>null\<close>, the other four traits at 50.
\<close>

definition nullOpenness :: BigFiveObject where
  "nullOpenness =
     \<lparr>openness_prop = Null, conscientiousness_prop = Num 50, extraversion_prop = Num 50,
      agreeableness_prop = Num 50, neuroticism_prop = Num 50, others_prop = []\<rparr>"

subsection \<open>The variance, in the words of the specification\<close>

text \<open>The variance of five numbers: the mean of the squared distances to their mean.\<close>

definition variance5 :: "real \<Rightarrow> real \<Rightarrow> real \<Rightarrow> real \<Rightarrow> real \<Rightarrow> real" where
  "variance5 a b c d e =
     ((a - (a + b + c + d + e) / 5) ^ 2 + (b - (a + b + c + d + e) / 5) ^ 2
      + (c - (a + b + c + d + e) / 5) ^ 2 + (d - (a + b + c + d + e) / 5) ^ 2
      + (e - (a + b + c + d + e) / 5) ^ 2) / 5"

subsection \<open>The three coherence rules, in the words of the specification\<close>

text \<open>
  Rule A: the E/I letter of the MBTI type (its first letter) disagrees with whether Big
  Five extraversion is above 50. Rule B: Honesty-Humility above 70 and the mean of the three
  Dark Triad scores above 50. Rule C: self-directedness above 70 and impulsiveness above 70.
\<close>

definition ruleA :: "AllSystems \<Rightarrow> bool" where
  "ruleA s = ((type (mbti s) ! 0 = CHR ''E'') \<noteq> (extraversion (bigFive s) > 50))"

definition ruleB :: "AllSystems \<Rightarrow> bool" where
  "ruleB s =
     (honestyHumility (hexaco s) > 70 \<and>
      (machiavellianism (darkTriad s) + narcissism (darkTriad s) + psychopathy (darkTriad s)) / 3
        > 50)"

definition ruleC :: "AllSystems \<Rightarrow> bool" where
  "ruleC s =
     (selfDirectedness (character (tci s)) > 70 \<and> impulsiveness (temperament (tci s)) > 70)"

section \<open>Properties\<close>

subsection \<open>MBTI at the neutral profile and at the threshold\<close>

text \<open>
  C5, as the specification states it, fails: at the neutral profile the type is not
  \<open>ISTJ\<close>. The fourth letter is \<open>J\<close> only when conscientiousness is above 50.
\<close>

theorem C5_neutral_type_counterexample:
  "type (convertBigFiveToMBTI neutral) \<noteq> ''ISTJ'' \<and>
   type (MBTIConverter_convertBigFiveToMBTI neutral) \<noteq> ''ISTJ''"
  by (simp add: convertBigFiveToMBTI_def MBTIConverter_convertBigFiveToMBTI_def neutral_def
      Let_def)

text \<open>
  C5, amended: at the neutral profile both MBTI conversions return the type \<open>ISTP\<close>,
  strength 0 in each of the four dimensions, and confidence 20.
\<close>

theorem C5_neutral_mbti:
  "type (convertBigFiveToMBTI neutral) = ''ISTP'' \<and>
   strength (EI (dimensions (convertBigFiveToMBTI neutral))) = 0 \<and>
   strength (SN (dimensions (convertBigFiveToMBTI neutral))) = 0 \<and>
   strength (TF (dimensions (convertBigFiveToMBTI neutral))) = 0 \<and>
   strength (JP (dimensions (convertBigFiveToMBTI neutral))) = 0 \<and>
   confidence_mbti (convertBigFiveToMBTI neutral) = 20 \<and>
   type (MBTIConverter_convertBigFiveToMBTI neutral) = ''ISTP'' \<and>
   strength (EI (dimensions (MBTIConverter_convertBigFiveToMBTI neutral))) = 0 \<and>
   strength (SN (dimensions (MBTIConverter_convertBigFiveToMBTI neutral))) = 0 \<and>
   strength (TF (dimensions (MBTIConverter_convertBigFiveToMBTI neutral))) = 0 \<and>
   strength (JP (dimensions (MBTIConverter_convertBigFiveToMBTI neutral))) = 0 \<and>
   confidence_mbti (MBTIConverter_convertBigFiveToMBTI neutral) = 20"
  by (simp add: convertBigFiveToMBTI_def MBTIConverter_convertBigFiveToMBTI_def
      calculateMBTIConfidence_def getConversionConfidence_def neutral_def Let_def)

text \<open>
  C6: a source trait exactly at 50 resolves its dimension to the low pole, because the
  comparison is strict: extraversion 50 gives \<open>I\<close>, openness 50 gives \<open>S\<close>, agreeableness 50
  gives \<open>T\<close>, conscientiousness 50 gives \<open>P\<close>. This holds in both MBTI conversions, for the
  letter of the type and for the preference of the dimension, whatever the other traits
  are.
\<close>

theorem C6_threshold_low_pole:
  "(extraversion t = 50 \<longrightarrow>
      type (convertBigFiveToMBTI t) ! 0 = CHR ''I'' \<and>
      preference (EI (dimensions (convertBigFiveToMBTI t))) = CHR ''I'' \<and>
      type (MBTIConverter_convertBigFiveToMBTI t) ! 0 = CHR ''I'' \<and>
      preference (EI (dimensions (MBTIConverter_convertBigFiveToMBTI t))) = CHR ''I'') \<and>
   (openness t = 50 \<longrightarrow>
      type (convertBigFiveToMBTI t) ! 1 = CHR ''S'' \<and>
      preference (SN (dimensions (convertBigFiveToMBTI t))) = CHR ''S'' \<and>
      type (MBTIConverter_convertBigFiveToMBTI t) ! 1 = CHR ''S'' \<and>
      preference (SN (dimensions (MBTIConverter_convertBigFiveToMBTI t))) = CHR ''S'') \<and>
   (agreeableness t = 50 \<longrightarrow>
      type (convertBigFiveToMBTI t) ! 2 = CHR ''T'' \<and>
      preference (TF (dimensions (convertBigFiveToMBTI t))) = CHR ''T'' \<and>
      type (MBTIConverter_convertBigFiveToMBTI t) ! 2 = CHR ''T'' \<and>
      preference (TF (dimensions (MBTIConverter_convertBigFiveToMBTI t))) = CHR ''T'') \<and>
   (conscientiousness t = 50 \<longrightarrow>
      type (convertBigFiveToMBTI t) ! 3 = CHR ''P'' \<and>
      preference (JP (dimensions (convertBigFiveToMBTI t))) = CHR ''P'' \<and>
      type (MBTIConverter_convertBigFiveToMBTI t) ! 3 = CHR ''P'' \<and>
      preference (JP (dimensions (MBTIConverter_convertBigFiveToMBTI t))) = CHR ''P'')"
  by (simp add: convertBigFiveToMBTI_def MBTIConverter_convertBigFiveToMBTI_def Let_def)

theorem C6_threshold_low_pole_witness:
  "extraversion neutral = 50 \<and> openness neutral = 50 \<and> agreeableness neutral = 50 \<and>
   conscientiousness neutral = 50 \<and>
   type (convertBigFiveToMBTI neutral) ! 0 = CHR ''I'' \<and>
   type (convertBigFiveToMBTI neutral) ! 1 = CHR ''S'' \<and>
   type (convertBigFiveToMBTI neutral) ! 2 = CHR ''T'' \<and>
   type (convertBigFiveToMBTI neutral) ! 3 = CHR ''P''"
proof -
  have at_threshold:
    "extraversion neutral = 50 \<and> openness neutral = 50 \<and> agreeableness neutral = 50 \<and>
     conscientiousness neutral = 50"
    by (simp add: neutral_def)
  with C6_threshold_low_pole [of neutral] show ?thesis by blast
qed

subsection \<open>Honesty-Humility\<close>

text \<open>
  C7: Honesty-Humility is the average of (100 - neuroticism), agreeableness and
  conscientiousness; when agreeableness is below 20, 30 is subtracted and the result is
  floored at 0, otherwise the average is capped at 100. PersonalityEngine and
  HEXACOCalculator compute the same value. With agreeableness, neuroticism and
  conscientiousness all 10 the result is max(0, 110/3 - 30) = 20/3.
\<close>

theorem C7_honestyHumility:
  "calculateHonestyHumility t =
     (if agreeableness t < 20
      then max 0 (((100 - neuroticism t) + agreeableness t + conscientiousness t) / 3 - 30)
      else min 100 (((100 - neuroticism t) + agreeableness t + conscientiousness t) / 3)) \<and>
   HEXACOCalculator_calculateHonestyHumility t = calculateHonestyHumility t \<and>
   honestyHumility (convertBigFiveToHEXACO t) = calculateHonestyHumility t \<and>
   (agreeableness t = 10 \<and> neuroticism t = 10 \<and> conscientiousness t = 10 \<longrightarrow>
      calculateHonestyHumility t = max 0 (110 / 3 - 30) \<and>
      calculateHonestyHumility t = 20 / 3)"
  by (simp add: calculateHonestyHumility_def HEXACOCalculator_calculateHonestyHumility_def
      convertBigFiveToHEXACO_def Let_def)

theorem C7_honestyHumility_witness:
  "agreeableness scenario3 = 10 \<and> neuroticism scenario3 = 10 \<and>
   conscientiousness scenario3 = 10 \<and>
   honestyHumility (convertBigFiveToHEXACO scenario3) = 20 / 3"
proof -
  have tens:
    "agreeableness scenario3 = 10 \<and> neuroticism scenario3 = 10 \<and>
     conscientiousness scenario3 = 10"
    by (simp add: scenario3_def)
  with C7_honestyHumility [of scenario3] show ?thesis by simp
qed

subsection \<open>Confidence floors and caps\<close>

lemma jsval_ops_on_numbers:
  "js_add (Num x) (Num y) = Num (x + y)"
  "js_sub (Num x) (Num y) = Num (x - y)"
  "Math_max (Num x) (Num y) = Num (max x y)"
  "Math_pow (Num x) n = Num (x ^ n)"
  "0 < n \<Longrightarrow> js_div (Num x) n = Num (x / real n)"
  "js_lt (Num x) z = (x < z)"
  "js_gt (Num x) z = (x > z)"
  "js_ge (Num x) z = (x \<ge> z)"
  "js_le (Num x) z = (x \<le> z)"
  by (simp_all add: js_add_def js_sub_def Math_max_def Math_pow_def js_div_def numeric_def
      js_lt_def js_gt_def js_ge_def js_le_def)

lemma calculateVariance_five:
  "calculateVariance [Num a, Num b, Num c, Num d, Num e] = Num (variance5 a b c d e)"
  by (simp add: calculateVariance_def Let_def jsval_ops_on_numbers variance5_def)

lemma variance5_nonneg: "0 \<le> variance5 a b c d e"
  by (simp add: variance5_def)

lemma tci_confidence_five:
  assumes "others t = []"
  shows "confidence_tci (convertBigFiveToTCI t) =
     Num (max 60 (100 - variance5 (openness t) (conscientiousness t) (extraversion t)
                          (agreeableness t) (neuroticism t)))"
  using assms
  by (simp add: convertBigFiveToTCI_def calculateTCIConfidence_def Object_values_def Let_def
      calculateVariance_five jsval_ops_on_numbers)

lemma mbti_confidence_formula:
  "confidence_mbti (convertBigFiveToMBTI t) =
     min 100 ((strength (EI (dimensions (convertBigFiveToMBTI t)))
               + strength (SN (dimensions (convertBigFiveToMBTI t)))
               + strength (TF (dimensions (convertBigFiveToMBTI t)))
               + strength (JP (dimensions (convertBigFiveToMBTI t)))) / 4 + 20)"
proof -
  have half: "(a + b + c + d) / 2 = (a * 2 + b * 2 + c * 2 + d * 2) / 4" for a b c d :: real
    by (simp add: field_simps)
  show ?thesis
    by (simp add: convertBigFiveToMBTI_def calculateMBTIConfidence_def Let_def half)
qed

lemma mbti_confidence_bounds:
  "20 \<le> confidence_mbti (convertBigFiveToMBTI t) \<and>
   confidence_mbti (convertBigFiveToMBTI t) \<le> 100"
proof -
  have "0 \<le> (\<bar>extraversion t - 50\<bar> + \<bar>openness t - 50\<bar> + \<bar>agreeableness t - 50\<bar>
          + \<bar>conscientiousness t - 50\<bar>) / 4 * 2"
    by simp
  then show ?thesis
    by (simp add: convertBigFiveToMBTI_def calculateMBTIConfidence_def Let_def)
qed

lemma filter_Num:
  "filter (\<lambda>score. js_lt score 20 \<or> js_gt score 80) (map Num xs) =
     map Num (filter (\<lambda>v. v < 20 \<or> v > 80) xs)"
  by (induction xs) (simp_all add: jsval_ops_on_numbers)

lemma hexaco_confidence_five:
  assumes "others t = []"
  shows "confidence_hexaco (convertBigFiveToHEXACO t) =
     min 100 (70 + 5 * real (length (filter (\<lambda>v. v < 20 \<or> v > 80)
        [openness t, conscientiousness t, extraversion t, agreeableness t, neuroticism t])))"
proof -
  have "Object_values t =
      map Num [openness t, conscientiousness t, extraversion t, agreeableness t, neuroticism t]"
    using assms by (simp add: Object_values_def)
  then have "calculateHEXACOConfidence t =
      min 100 (70 + real (length (filter (\<lambda>v. v < 20 \<or> v > 80)
        [openness t, conscientiousness t, extraversion t, agreeableness t, neuroticism t])) * 5)"
    unfolding calculateHEXACOConfidence_def Let_def by (simp only: filter_Num length_map)
  then show ?thesis
    by (simp add: convertBigFiveToHEXACO_def mult.commute)
qed

lemma hexaco_confidence_cap: "confidence_hexaco (convertBigFiveToHEXACO t) \<le> 100"
  by (simp add: convertBigFiveToHEXACO_def calculateHEXACOConfidence_def Let_def)

text \<open>
  On an object that has the five traits and no other property, the three confidences are
  the formulas of the specification and keep their floors and caps.
\<close>

lemma confidences_of_five_properties:
  assumes "others t = []"
  shows "confidence_tci (convertBigFiveToTCI t) =
     Num (max 60 (100 - variance5 (openness t) (conscientiousness t) (extraversion t)
                          (agreeableness t) (neuroticism t))) \<and>
   60 \<le> max 60 (100 - variance5 (openness t) (conscientiousness t) (extraversion t)
                          (agreeableness t) (neuroticism t)) \<and>
   confidence_mbti (convertBigFiveToMBTI t) =
     min 100 ((strength (EI (dimensions (convertBigFiveToMBTI t)))
               + strength (SN (dimensions (convertBigFiveToMBTI t)))
               + strength (TF (dimensions (convertBigFiveToMBTI t)))
               + strength (JP (dimensions (convertBigFiveToMBTI t)))) / 4 + 20) \<and>
   20 \<le> confidence_mbti (convertBigFiveToMBTI t) \<and>
   confidence_mbti (convertBigFiveToMBTI t) \<le> 100 \<and>
   confidence_hexaco (convertBigFiveToHEXACO t) =
     min 100 (70 + 5 * real (length (filter (\<lambda>v. v < 20 \<or> v > 80)
        [openness t, conscientiousness t, extraversion t, agreeableness t, neuroticism t]))) \<and>
   confidence_hexaco (convertBigFiveToHEXACO t) \<le> 100"
  using tci_confidence_five [OF assms] mbti_confidence_formula [of t]
    mbti_confidence_bounds [of t] hexaco_confidence_five [OF assms] hexaco_confidence_cap [of t]
  by simp

lemma explorerProfile_valid: "validTraits explorerProfile"
  by (simp add: validTraits_def inRange_def explorerProfile_def)

lemma explorerProfile_tci_confidence:
  "confidence_tci (convertBigFiveToTCI explorerProfile) = NaN"
  by (simp add: convertBigFiveToTCI_def calculateTCIConfidence_def calculateVariance_def
      Object_values_def explorerProfile_def Let_def js_add_def js_sub_def js_div_def
      Math_pow_def Math_max_def numeric_def)

lemma explorerProfile_hexaco_confidence:
  "confidence_hexaco (convertBigFiveToHEXACO explorerProfile) = 75"
  by (simp add: convertBigFiveToHEXACO_def calculateHEXACOConfidence_def Object_values_def
      explorerProfile_def Let_def js_lt_def js_gt_def)

text \<open>
  C8 fails on the code. The engine computes the TCI and HEXACO confidences from
  \<^verbatim>\<open>Object.values(bigFive)\<close>, that is from every property of the object and not from the
  five traits. For the BigFiveProfile \<open>explorerProfile\<close>, whose five traits are valid, the
  sum in calculateVariance becomes a string, the variance is NaN and the TCI confidence is
  NaN, which is not a number at or above 60; and the HEXACO confidence is 75 although none of
  the five traits is below 20 or above 80, because \<^verbatim>\<open>confidence: 95\<close> is counted.
\<close>

theorem C8_confidences_of_a_profile:
  "validTraits explorerProfile \<and>
   confidence_tci (convertBigFiveToTCI explorerProfile) = NaN \<and>
   filter (\<lambda>v. v < 20 \<or> v > 80)
     [openness explorerProfile, conscientiousness explorerProfile, extraversion explorerProfile,
      agreeableness explorerProfile, neuroticism explorerProfile] = [] \<and>
   confidence_hexaco (convertBigFiveToHEXACO explorerProfile) = 75"
  using explorerProfile_valid explorerProfile_tci_confidence explorerProfile_hexaco_confidence
  by (simp add: explorerProfile_def)

subsection \<open>Placeholder fields of the Dark Triad profiles\<close>

text \<open>
  C10: for every input, PersonalityEngine.convertBigFiveToDarkTriad returns overallDarkness 0
  and riskLevel LOW, whatever the three sub-scores are; DarkTriadCalculator.calculateFromHEXACO
  returns overallDarkness 0, riskLevel LOW and confidence 80 for every HEXACO profile.
\<close>

theorem C10_placeholders:
  "overallDarkness (convertBigFiveToDarkTriad t) = 0 \<and>
   riskLevel (convertBigFiveToDarkTriad t) = LOW \<and>
   overallDarkness (calculateFromHEXACO h) = 0 \<and>
   riskLevel (calculateFromHEXACO h) = LOW \<and>
   confidence_dark (calculateFromHEXACO h) = 80"
  by (simp add: convertBigFiveToDarkTriad_def calculateFromHEXACO_def)

subsection \<open>MBTI consistency\<close>

lemma matchLoop_count:
  "matchLoop actual derived i matchCount =
     matchCount + length (filter (\<lambda>j. charAt actual j = charAt derived j) [i..<4])"
proof (induction actual derived i matchCount rule: matchLoop.induct)
  case (1 actual derived i matchCount)
  show ?case
  proof (cases "i < 4")
    case True
    then have "[i..<4] = i # [i + 1..<4]"
      by (simp add: upt_conv_Cons)
    with True "1.IH" show ?thesis
      by (subst matchLoop.simps) simp
  next
    case False
    then show ?thesis
      by (subst matchLoop.simps) simp
  qed
qed

lemma consistency_count:
  "calculateMBTIConsistency b m =
     25 * real (length (filter
        (\<lambda>i. charAt (type m) i = charAt (type (MBTIConverter_convertBigFiveToMBTI b)) i)
        [0..<4]))"
  unfolding calculateMBTIConsistency_def Let_def matchLoop_count
  by simp

lemma consistency_values:
  "calculateMBTIConsistency b m \<in> {0, 25, 50, 75, 100}"
proof -
  let ?n = "length (filter
        (\<lambda>i. charAt (type m) i = charAt (type (MBTIConverter_convertBigFiveToMBTI b)) i)
        [0..<4])"
  have "?n \<le> length [0..<(4::nat)]"
    by (rule length_filter_le)
  then have "?n \<le> 4" by simp
  then have "?n = 0 \<or> ?n = 1 \<or> ?n = 2 \<or> ?n = 3 \<or> ?n = 4" by arith
  moreover have "calculateMBTIConsistency b m = 25 * real ?n"
    by (rule consistency_count)
  ultimately show ?thesis by auto
qed

lemma consistency_self:
  "calculateMBTIConsistency t (MBTIConverter_convertBigFiveToMBTI t) = 100"
  by (simp add: consistency_count)

text \<open>
  C9: calculateMBTIConsistency returns 25 times the number of positions, out of 4, at which
  the supplied type and the type re-derived from the Big Five input by
  MBTIConverter.convertBigFiveToMBTI have the same letter; the value is one of 0, 25, 50, 75,
  100; and it is 100 when the supplied profile is itself the converter's result for the same
  input.
\<close>

theorem C9_mbti_consistency:
  "calculateMBTIConsistency b m =
     25 * real (length (filter
        (\<lambda>i. charAt (type m) i = charAt (type (MBTIConverter_convertBigFiveToMBTI b)) i)
        [0..<4])) \<and>
   calculateMBTIConsistency b m \<in> {0, 25, 50, 75, 100} \<and>
   calculateMBTIConsistency t (MBTIConverter_convertBigFiveToMBTI t) = 100"
  using consistency_count [of b m] consistency_values [of b m] consistency_self [of t]
  by blast

theorem C9_mbti_consistency_witness:
  "calculateMBTIConsistency neutral
     \<lparr>type = ''ESTJ'', dimensions = dimensions (convertBigFiveToMBTI neutral),
      confidence_mbti = 20\<rparr> = 50 \<and>
   calculateMBTIConsistency neutral (MBTIConverter_convertBigFiveToMBTI neutral) = 100"
  using C9_mbti_consistency [of neutral
      "\<lparr>type = ''ESTJ'', dimensions = dimensions (convertBigFiveToMBTI neutral),
        confidence_mbti = 20\<rparr>" neutral]
  by (simp add: MBTIConverter_convertBigFiveToMBTI_def neutral_def charAt_def upt_conv_Cons
      Let_def)

subsection \<open>Consistency of the systems\<close>

lemma includes_E_first:
  "ty \<in> set MBTITypes \<Longrightarrow> String_includes ty (CHR ''E'') = (ty ! 0 = CHR ''E'')"
  by (auto simp add: MBTITypes_def String_includes_def)

lemma consistency_rules:
  assumes "String_includes (type (mbti s)) (CHR ''E'') = (type (mbti s) ! 0 = CHR ''E'')"
  shows "validateSystemConsistency s =
     (let ws = (if ruleA s then [warningA] else []) @ (if ruleB s then [warningB] else [])
               @ (if ruleC s then [warningC] else [])
      in \<lparr>isConsistent = (ws = []),
          consistencyScore =
            max 0 (100 - (if ruleA s then 10 else 0) - (if ruleB s then 15 else 0)
                   - (if ruleC s then 10 else 0)),
          warnings = ws\<rparr>)"
  using assms
  by (simp add: validateSystemConsistency_def ruleA_def ruleB_def ruleC_def Let_def)

text \<open>
  C3: for a profile whose MBTI type is one of the sixteen types, validateSystemConsistency
  starts from the score 100 and an empty warnings list and applies the three rules in the
  order A, B, C: rule A appends its warning and subtracts 10, rule B appends its warning and
  subtracts 15, rule C appends its warning and subtracts 10. The returned score is floored at
  0, the warnings are in the order of the rules, and isConsistent holds exactly when there is
  no warning.
\<close>

theorem C3_consistency_rules:
  assumes "type (mbti s) \<in> set MBTITypes"
  shows "validateSystemConsistency s =
     (let ws = (if ruleA s then [warningA] else []) @ (if ruleB s then [warningB] else [])
               @ (if ruleC s then [warningC] else [])
      in \<lparr>isConsistent = (ws = []),
          consistencyScore =
            max 0 (100 - (if ruleA s then 10 else 0) - (if ruleB s then 15 else 0)
                   - (if ruleC s then 10 else 0)),
          warnings = ws\<rparr>)"
  using assms includes_E_first consistency_rules by blast

theorem C3_consistency_rules_witness:
  "type (mbti scenario4) \<in> set MBTITypes \<and>
   validateSystemConsistency scenario4 =
     \<lparr>isConsistent = False, consistencyScore = 90, warnings = [warningA]\<rparr>"
proof -
  have ty: "type (mbti scenario4) \<in> set MBTITypes"
    by (simp add: scenario4_def MBTITypes_def Let_def)
  have a: "ruleA scenario4"
    by (simp add: ruleA_def scenario4_def Let_def)
  have b: "\<not> ruleB scenario4"
    by (simp add: ruleB_def scenario4_def Let_def convertBigFiveToHEXACO_def
        calculateHonestyHumility_def)
  have c: "\<not> ruleC scenario4"
    by (simp add: ruleC_def scenario4_def Let_def convertBigFiveToTCI_def
        calculateSelfDirectedness_def)
  from C3_consistency_rules [OF ty] a b c ty show ?thesis
    by (simp add: Let_def)
qed

subsection \<open>Validation and the unified profile\<close>

text \<open>On an object whose five traits are numbers, validation is the range test.\<close>

lemma validateBigFive_numbers: "validateBigFive (asObject t) = validTraits t"
  by (auto simp add: validateBigFive_def requiredTraits_def getProp_def asObject_def
      jsval_ops_on_numbers validTraits_def inRange_def)

lemma asTraits_asObject: "asTraits (asObject t) = t"
  by (simp add: asTraits_def asObject_def)

lemma generateAllSystems_valid:
  "validTraits t \<Longrightarrow>
   generateAllSystems (asObject t) =
     Inr \<lparr>bigFive = t, mbti = convertBigFiveToMBTI t, hexaco = convertBigFiveToHEXACO t,
          darkTriad = convertBigFiveToDarkTriad t, tci = convertBigFiveToTCI t\<rparr>"
  by (simp add: generateAllSystems_def validateBigFive_numbers asTraits_asObject Let_def)

lemma generateAllSystems_fails:
  "(\<exists>e. generateAllSystems obj = Inl e) \<longleftrightarrow> \<not> validateBigFive obj"
  by (simp add: generateAllSystems_def Let_def)

lemma generateAllSystems_invalid_numbers:
  "\<not> validTraits t \<Longrightarrow>
   generateAllSystems (asObject t) = Inl (Error ''Invalid Big Five traits provided'')"
  by (simp add: generateAllSystems_def validateBigFive_numbers)

lemma validateBigFive_absent:
  "openness_prop obj = Undefined \<or> conscientiousness_prop obj = Undefined \<or>
   extraversion_prop obj = Undefined \<or> agreeableness_prop obj = Undefined \<or>
   neuroticism_prop obj = Undefined \<Longrightarrow> \<not> validateBigFive obj"
  by (auto simp add: validateBigFive_def requiredTraits_def getProp_def js_ge_def)

lemma neutral_valid: "validTraits neutral"
  by (simp add: validTraits_def inRange_def neutral_def)

text \<open>
  C2 fails on the code. generateAllSystems throws exactly when validateBigFive returns false
  (\<open>generateAllSystems_fails\<close>), and on numbers validateBigFive is the range test
  (\<open>validateBigFive_numbers\<close>); but validateBigFive only compares, and the comparisons convert
  their operand. For the object \<open>nullOpenness\<close>, whose \<^verbatim>\<open>openness\<close> is \<^verbatim>\<open>null\<close> and so is
  no number in [0,100], \<^verbatim>\<open>null >= 0\<close> and \<^verbatim>\<open>null <= 100\<close> are both true: validateBigFive
  returns true and generateAllSystems returns a profile instead of failing.
\<close>

theorem C2_null_trait_is_accepted:
  "openness_prop nullOpenness = Null \<and>
   validateBigFive nullOpenness \<and>
   generateAllSystems nullOpenness \<noteq> Inl (Error ''Invalid Big Five traits provided'')"
  by (simp add: generateAllSystems_def validateBigFive_def requiredTraits_def getProp_def
      nullOpenness_def js_ge_def js_le_def Let_def)

subsection \<open>Every derived field lies in [0,100]\<close>

lemma mbti_strengths_in_range:
  assumes "validTraits t"
  shows "inRange (strength (EI (dimensions (convertBigFiveToMBTI t)))) \<and>
         inRange (strength (SN (dimensions (convertBigFiveToMBTI t)))) \<and>
         inRange (strength (TF (dimensions (convertBigFiveToMBTI t)))) \<and>
         inRange (strength (JP (dimensions (convertBigFiveToMBTI t))))"
  using assms
  by (simp add: validTraits_def inRange_def convertBigFiveToMBTI_def Let_def abs_le_iff)

lemma mbti_confidence_in_range:
  "inRange (confidence_mbti (convertBigFiveToMBTI t))"
proof -
  have "0 \<le> (\<bar>extraversion t - 50\<bar> + \<bar>openness t - 50\<bar> + \<bar>agreeableness t - 50\<bar>
          + \<bar>conscientiousness t - 50\<bar>) / 4 * 2"
    by simp
  then show ?thesis
    by (simp add: inRange_def convertBigFiveToMBTI_def calculateMBTIConfidence_def Let_def)
qed

lemma honestyHumility_in_range:
  assumes "validTraits t"
  shows "inRange (calculateHonestyHumility t)"
  using assms
  by (auto simp add: validTraits_def inRange_def calculateHonestyHumility_def Let_def)

lemma emotionality_in_range:
  assumes "validTraits t"
  shows "inRange (calculateEmotionality t)"
  using assms
  by (auto simp add: validTraits_def inRange_def calculateEmotionality_def Let_def)

lemma hexaco_agreeableness_in_range:
  assumes "validTraits t"
  shows "inRange (adjustHEXACOAgreeableness t)"
  using assms
  by (auto simp add: validTraits_def inRange_def adjustHEXACOAgreeableness_def)

lemma hexaco_confidence_in_range: "inRange (calculateHEXACOConfidence t)"
proof -
  have "0 \<le> 70 + real (length (filter (\<lambda>score. js_lt score 20 \<or> js_gt score 80)
      (Object_values t))) * 5"
    by simp
  then show ?thesis
    unfolding inRange_def calculateHEXACOConfidence_def Let_def
    by (simp only: min_def split: if_splits) simp
qed

lemma hexaco_in_range:
  assumes "validTraits t"
  shows "inRange (honestyHumility (convertBigFiveToHEXACO t)) \<and>
         inRange (emotionality (convertBigFiveToHEXACO t)) \<and>
         inRange (extraversion_hexaco (convertBigFiveToHEXACO t)) \<and>
         inRange (agreeableness_hexaco (convertBigFiveToHEXACO t)) \<and>
         inRange (conscientiousness_hexaco (convertBigFiveToHEXACO t)) \<and>
         inRange (openness_hexaco (convertBigFiveToHEXACO t)) \<and>
         inRange (confidence_hexaco (convertBigFiveToHEXACO t))"
  using assms honestyHumility_in_range [OF assms] emotionality_in_range [OF assms]
    hexaco_agreeableness_in_range [OF assms] hexaco_confidence_in_range [of t]
  by (simp add: convertBigFiveToHEXACO_def validTraits_def)

lemma machiavellianism_in_range:
  assumes "validTraits t"
  shows "inRange (calculateMachiavellianism t)"
  using assms
  by (auto simp add: validTraits_def inRange_def calculateMachiavellianism_def Let_def)

lemma narcissism_in_range:
  assumes "validTraits t"
  shows "inRange (calculateNarcissism t)"
  using assms
  by (auto simp add: validTraits_def inRange_def calculateNarcissism_def Let_def)

lemma psychopathy_in_range:
  assumes "validTraits t"
  shows "inRange (calculatePsychopathy t)"
  using assms
  by (auto simp add: validTraits_def inRange_def calculatePsychopathy_def Let_def)

lemma darkTriad_confidence_in_range: "inRange (calculateDarkTriadConfidence t)"
  by (simp add: inRange_def calculateDarkTriadConfidence_def Let_def)

lemma darkTriad_in_range:
  assumes "validTraits t"
  shows "inRange (machiavellianism (convertBigFiveToDarkTriad t)) \<and>
         inRange (narcissism (convertBigFiveToDarkTriad t)) \<and>
         inRange (psychopathy (convertBigFiveToDarkTriad t)) \<and>
         inRange (overallDarkness (convertBigFiveToDarkTriad t)) \<and>
         inRange (confidence_dark (convertBigFiveToDarkTriad t))"
  using machiavellianism_in_range [OF assms] narcissism_in_range [OF assms]
    psychopathy_in_range [OF assms] darkTriad_confidence_in_range [of t]
  by (simp add: convertBigFiveToDarkTriad_def inRange_def)

lemma temperament_in_range:
  assumes "validTraits t"
  shows "inRange (noveltySeekingCuriosity (temperament (convertBigFiveToTCI t))) \<and>
         inRange (impulsiveness (temperament (convertBigFiveToTCI t))) \<and>
         inRange (extravagance (temperament (convertBigFiveToTCI t))) \<and>
         inRange (disorderliness (temperament (convertBigFiveToTCI t))) \<and>
         inRange (harmAvoidance (temperament (convertBigFiveToTCI t))) \<and>
         inRange (rewardDependence (temperament (convertBigFiveToTCI t))) \<and>
         inRange (persistence (temperament (convertBigFiveToTCI t)))"
  using assms
  by (auto simp add: validTraits_def inRange_def convertBigFiveToTCI_def
      calculateNoveltySeekingCuriosity_def calculateImpulsiveness_def calculateExtravagance_def
      calculateDisorderliness_def calculateHarmAvoidance_def calculateRewardDependence_def
      calculatePersistence_def diff_divide_distrib)

lemma character_in_range:
  assumes "validTraits t"
  shows "inRange (selfDirectedness (character (convertBigFiveToTCI t))) \<and>
         inRange (cooperativeness (character (convertBigFiveToTCI t))) \<and>
         inRange (selfTranscendence (character (convertBigFiveToTCI t)))"
  using assms
  by (auto simp add: validTraits_def inRange_def convertBigFiveToTCI_def
      calculateSelfDirectedness_def calculateCooperativeness_def calculateSelfTranscendence_def
      diff_divide_distrib)

lemma tci_confidence_in_range:
  assumes "others t = []"
  shows "\<exists>v. confidence_tci (convertBigFiveToTCI t) = Num v \<and> inRange v"
  using tci_confidence_five [OF assms]
    variance5_nonneg [of "openness t" "conscientiousness t" "extraversion t" "agreeableness t"
      "neuroticism t"]
  by (simp add: inRange_def)

text \<open>
  On a valid object that has the five traits and no other property, generateAllSystems
  returns and every numeric field of the result lies in [0,100].
\<close>

lemma fields_in_range_of_five_properties:
  assumes "validTraits t" and "others t = []"
  shows "\<exists>s. generateAllSystems (asObject t) = Inr s \<and>
     inRange (strength (EI (dimensions (mbti s)))) \<and>
     inRange (strength (SN (dimensions (mbti s)))) \<and>
     inRange (strength (TF (dimensions (mbti s)))) \<and>
     inRange (strength (JP (dimensions (mbti s)))) \<and>
     inRange (confidence_mbti (mbti s)) \<and>
     inRange (honestyHumility (hexaco s)) \<and>
     inRange (emotionality (hexaco s)) \<and>
     inRange (extraversion_hexaco (hexaco s)) \<and>
     inRange (agreeableness_hexaco (hexaco s)) \<and>
     inRange (conscientiousness_hexaco (hexaco s)) \<and>
     inRange (openness_hexaco (hexaco s)) \<and>
     inRange (confidence_hexaco (hexaco s)) \<and>
     inRange (machiavellianism (darkTriad s)) \<and>
     inRange (narcissism (darkTriad s)) \<and>
     inRange (psychopathy (darkTriad s)) \<and>
     inRange (overallDarkness (darkTriad s)) \<and>
     inRange (confidence_dark (darkTriad s)) \<and>
     inRange (noveltySeekingCuriosity (temperament (tci s))) \<and>
     inRange (impulsiveness (temperament (tci s))) \<and>
     inRange (extravagance (temperament (tci s))) \<and>
     inRange (disorderliness (temperament (tci s))) \<and>
     inRange (harmAvoidance (temperament (tci s))) \<and>
     inRange (rewardDependence (temperament (tci s))) \<and>
     inRange (persistence (temperament (tci s))) \<and>
     inRange (selfDirectedness (character (tci s))) \<and>
     inRange (cooperativeness (character (tci s))) \<and>
     inRange (selfTranscendence (character (tci s))) \<and>
     (\<exists>v. confidence_tci (tci s) = Num v \<and> inRange v)"
proof -
  let ?s = "\<lparr>bigFive = t, mbti = convertBigFiveToMBTI t, hexaco = convertBigFiveToHEXACO t,
            darkTriad = convertBigFiveToDarkTriad t, tci = convertBigFiveToTCI t\<rparr>"
  have "generateAllSystems (asObject t) = Inr ?s"
    using assms(1) by (rule generateAllSystems_valid)
  moreover have "mbti ?s = convertBigFiveToMBTI t" "hexaco ?s = convertBigFiveToHEXACO t"
    "darkTriad ?s = convertBigFiveToDarkTriad t" "tci ?s = convertBigFiveToTCI t"
    by simp_all
  ultimately show ?thesis
    using mbti_strengths_in_range [OF assms(1)] mbti_confidence_in_range [of t]
      hexaco_in_range [OF assms(1)] darkTriad_in_range [OF assms(1)]
      temperament_in_range [OF assms(1)] character_in_range [OF assms(1)]
      tci_confidence_in_range [OF assms(2)]
    by metis
qed

text \<open>
  C1 fails on the code. \<open>explorerProfile\<close> is a BigFiveTraits whose five fields lie in
  [0,100]; generateAllSystems accepts it, and the TCI confidence of the result is NaN, which
  is no number in [0,100]: calculateTCIConfidence takes the variance of
  \<^verbatim>\<open>Object.values(bigFive)\<close>, and the values of the other properties of the object are
  among them.
\<close>

theorem C1_profile_confidence_is_NaN:
  "validTraits explorerProfile \<and>
   (case generateAllSystems (asObject explorerProfile) of
      Inl e \<Rightarrow> False
    | Inr s \<Rightarrow> bigFive s = explorerProfile \<and> confidence_tci (tci s) = NaN)"
  using explorerProfile_valid generateAllSystems_valid [OF explorerProfile_valid]
    explorerProfile_tci_confidence
  by simp

subsection \<open>The two Dark Triad conversions\<close>

lemma fromHEXACO_in_range:
  assumes "inRange (honestyHumility h)" "inRange (emotionality h)"
    "inRange (extraversion_hexaco h)" "inRange (agreeableness_hexaco h)"
  shows "inRange (machiavellianism (calculateFromHEXACO h)) \<and>
         inRange (narcissism (calculateFromHEXACO h)) \<and>
         inRange (psychopathy (calculateFromHEXACO h))"
  using assms
  by (auto simp add: inRange_def calculateFromHEXACO_def
      DarkTriadCalculator_calculateMachiavellianism_def DarkTriadCalculator_calculateNarcissism_def
      DarkTriadCalculator_calculatePsychopathy_def diff_divide_distrib)

lemma neutral_direct_scores:
  "machiavellianism (convertBigFiveToDarkTriad neutral) = 93 / 2 \<and>
   narcissism (convertBigFiveToDarkTriad neutral) = 81 / 2 \<and>
   psychopathy (convertBigFiveToDarkTriad neutral) = 125 / 4"
  by (simp add: neutral_def convertBigFiveToDarkTriad_def calculateMachiavellianism_def
      calculateNarcissism_def calculatePsychopathy_def Let_def)

lemma neutral_hexaco_scores:
  "machiavellianism (calculateFromHEXACO (convertBigFiveToHEXACO neutral)) = 52 \<and>
   narcissism (calculateFromHEXACO (convertBigFiveToHEXACO neutral)) = 50 \<and>
   psychopathy (calculateFromHEXACO (convertBigFiveToHEXACO neutral)) = 46"
  by (simp add: neutral_def convertBigFiveToHEXACO_def calculateFromHEXACO_def
      calculateHonestyHumility_def calculateEmotionality_def adjustHEXACOAgreeableness_def
      DarkTriadCalculator_calculateMachiavellianism_def DarkTriadCalculator_calculateNarcissism_def
      DarkTriadCalculator_calculatePsychopathy_def Let_def)

text \<open>
  C4, as the specification states it, fails: at the neutral profile the direct conversion
  and the HEXACO-sourced one disagree on each of the three scores.
\<close>

theorem C4_variants_differ_counterexample:
  "validTraits neutral \<and>
   machiavellianism (convertBigFiveToDarkTriad neutral)
     \<noteq> machiavellianism (calculateFromHEXACO (convertBigFiveToHEXACO neutral)) \<and>
   narcissism (convertBigFiveToDarkTriad neutral)
     \<noteq> narcissism (calculateFromHEXACO (convertBigFiveToHEXACO neutral)) \<and>
   psychopathy (convertBigFiveToDarkTriad neutral)
     \<noteq> psychopathy (calculateFromHEXACO (convertBigFiveToHEXACO neutral))"
  using neutral_valid neutral_direct_scores neutral_hexaco_scores by simp

text \<open>
  C4, amended: the two conversions are different formulas and do not agree (at the neutral
  profile the direct one gives 46.5, 40.5 and 31.25, the HEXACO-sourced one 52, 50 and 46).
  For every valid BigFiveTraits the unified pipeline returns the direct conversion, and both
  conversions yield machiavellianism, narcissism and psychopathy within [0,100].
\<close>

theorem C4_dark_triad_variants:
  assumes "validTraits t"
  shows "(\<exists>s. generateAllSystems (asObject t) = Inr s \<and>
            darkTriad s = convertBigFiveToDarkTriad t) \<and>
     inRange (machiavellianism (convertBigFiveToDarkTriad t)) \<and>
     inRange (narcissism (convertBigFiveToDarkTriad t)) \<and>
     inRange (psychopathy (convertBigFiveToDarkTriad t)) \<and>
     inRange (machiavellianism (calculateFromHEXACO (convertBigFiveToHEXACO t))) \<and>
     inRange (narcissism (calculateFromHEXACO (convertBigFiveToHEXACO t))) \<and>
     inRange (psychopathy (calculateFromHEXACO (convertBigFiveToHEXACO t))) \<and>
     machiavellianism (convertBigFiveToDarkTriad neutral) = 93 / 2 \<and>
     narcissism (convertBigFiveToDarkTriad neutral) = 81 / 2 \<and>
     psychopathy (convertBigFiveToDarkTriad neutral) = 125 / 4 \<and>
     machiavellianism (calculateFromHEXACO (convertBigFiveToHEXACO neutral)) = 52 \<and>
     narcissism (calculateFromHEXACO (convertBigFiveToHEXACO neutral)) = 50 \<and>
     psychopathy (calculateFromHEXACO (convertBigFiveToHEXACO neutral)) = 46"
proof -
  have "\<exists>s. generateAllSystems (asObject t) = Inr s \<and> darkTriad s = convertBigFiveToDarkTriad t"
    using generateAllSystems_valid [OF assms] by simp
  moreover have "inRange (machiavellianism (calculateFromHEXACO (convertBigFiveToHEXACO t))) \<and>
     inRange (narcissism (calculateFromHEXACO (convertBigFiveToHEXACO t))) \<and>
     inRange (psychopathy (calculateFromHEXACO (convertBigFiveToHEXACO t)))"
    using hexaco_in_range [OF assms] by (intro fromHEXACO_in_range) simp_all
  ultimately show ?thesis
    using darkTriad_in_range [OF assms] neutral_direct_scores neutral_hexaco_scores by blast
qed

theorem C4_dark_triad_variants_witness:
  "validTraits neutral \<and>
   generateAllSystems (asObject neutral) \<noteq> Inl (Error ''Invalid Big Five traits provided'') \<and>
   inRange (machiavellianism (convertBigFiveToDarkTriad neutral)) \<and>
   inRange (machiavellianism (calculateFromHEXACO (convertBigFiveToHEXACO neutral)))"
proof -
  from C4_dark_triad_variants [OF neutral_valid] neutral_valid show ?thesis by auto
qed

end
